theory Spec2Isabelle
  imports Complex_Main
begin

section \<open>Python values, objects and exceptions\<close>

text \<open>
  Modelled from the spec: the \<open>Node\<close> class is imported by \<open>Link.py\<close> from \<open>.Node\<close>
  and is not part of the sources at hand. The data model describes a node as an entity with
  an integer id and a real-valued planar position; \<open>oid\<close> stands for the identity of the
  Python object, so that two distinct nodes carrying the same id and position stay distinct.
  The coordinates are the numbers the node holds; nothing below computes with them.
\<close>

record Node =
  oid :: nat
  node_id :: int
  node_x :: real
  node_y :: real

text \<open>
  The values that reach a \<open>Link\<close>. A finite \<open>float\<close> is represented by the number it
  denotes; it is only tested for truth and compared with \<open>==\<close>, which are exact on
  that number. Not-a-number and the infinities are not among the values, and no
  floating-point arithmetic is embedded: the geometric queries \<open>euclideanLength\<close>,
  \<open>getEuclideanLengthInMiles\<close>, \<open>getReferenceAngle\<close> and \<open>getReferenceAngleInDegrees\<close>
  compute in IEEE double precision with \<open>math.sqrt\<close>, \<open>math.acos\<close> and \<open>**\<close>, and
  are left out.
\<close>

datatype pyval =
    PNone
  | PBool bool
  | PInt int
  | PFloat real
  | PStr string
  | PTuple "pyval list"
  | PNode Node

text \<open>
  Exceptions. \<open>DtaError\<close> keeps the format string of its message together with the operands
  of \<open>%\<close>; the text produced by \<open>str\<close> and by \<open>%\<close> is not expanded.
  \<open>AttributeError\<close> carries the name that was looked up.
\<close>

datatype error =
    DtaError string "pyval list"
  | TypeError string
  | AttributeError string

text \<open>An instance is its attribute dictionary.\<close>

type_synonym obj = "string \<rightharpoonup> pyval"

definition andThen :: "error + 'a \<Rightarrow> ('a \<Rightarrow> error + 'b) \<Rightarrow> error + 'b" where
  "andThen m f = (case m of Inl e \<Rightarrow> Inl e | Inr v \<Rightarrow> f v)"

definition getattr :: "obj \<Rightarrow> string \<Rightarrow> error + pyval" where
  "getattr self name = (case self name of None \<Rightarrow> Inl (AttributeError name) | Some v \<Rightarrow> Inr v)"

text \<open>Truth value of an object, as tested by \<open>if label:\<close>.\<close>

fun truthy :: "pyval \<Rightarrow> bool" where
  "truthy PNone = False"
| "truthy (PBool b) = b"
| "truthy (PInt i) = (i \<noteq> 0)"
| "truthy (PFloat r) = (r \<noteq> 0)"
| "truthy (PStr s) = (s \<noteq> [])"
| "truthy (PTuple xs) = (xs \<noteq> [])"
| "truthy (PNode n) = True"

text \<open>
  The operator \<open>==\<close>: numbers (booleans included) compare by value across their types,
  strings and \<open>None\<close> with themselves, tuples by length and componentwise, nodes as
  entities; values of unrelated types are unequal.
\<close>

fun num_val :: "pyval \<Rightarrow> real option" where
  "num_val (PBool b) = Some (of_bool b)"
| "num_val (PInt i) = Some (of_int i)"
| "num_val (PFloat r) = Some r"
| "num_val v = None"

fun py_eq :: "pyval \<Rightarrow> pyval \<Rightarrow> bool"
  and py_eq_seq :: "pyval list \<Rightarrow> pyval list \<Rightarrow> bool" where
  "py_eq (PTuple xs) (PTuple ys) = py_eq_seq xs ys"
| "py_eq (PStr s) (PStr t) = (s = t)"
| "py_eq PNone PNone = True"
| "py_eq (PNode a) (PNode b) = (a = b)"
| "py_eq v w = (case num_val v of None \<Rightarrow> False
                 | Some x \<Rightarrow> (case num_val w of None \<Rightarrow> False | Some y \<Rightarrow> x = y))"
| "py_eq_seq [] [] = True"
| "py_eq_seq (x # xs) (y # ys) = (py_eq x y \<and> py_eq_seq xs ys)"
| "py_eq_seq xs ys = False"

text \<open>\<open>isinstance(v, Node)\<close>\<close>

fun isinstance_Node :: "pyval \<Rightarrow> bool" where
  "isinstance_Node (PNode n) = True"
| "isinstance_Node v = False"

text \<open>
  Modelled from the spec: the accessor \<open>getId\<close> of \<open>Node\<close> (from the capability set
  of the external interface). A value that is not a node has no such method.
\<close>

fun Node_getId :: "pyval \<Rightarrow> error + pyval" where
  "Node_getId (PNode n) = Inr (PInt (node_id n))"
| "Node_getId v = Inl (AttributeError ''getId'')"

section \<open>The class Link\<close>

definition DEFAULT_LABEL :: pyval where
  "DEFAULT_LABEL = PStr ''''"

text \<open>
  \<open>Link.__init__\<close>: the result pairs the outcome (an exception or \<open>None\<close>) with the
  attribute dictionary of \<open>self\<close> as the method leaves it.
\<close>

definition Link_init :: "obj \<Rightarrow> pyval \<Rightarrow> pyval \<Rightarrow> pyval \<Rightarrow> pyval \<Rightarrow> (error + unit) \<times> obj" where
  "Link_init self id' startNode endNode label =
     (let self1 = self(''_id'' \<mapsto> id');
          self2 = (if truthy label then self1(''_label'' \<mapsto> label)
                   else self1(''_label'' \<mapsto> DEFAULT_LABEL))
      in if \<not> isinstance_Node startNode then
           (Inl (DtaError ''Initializing Link with non-Node startNode: %s'' [startNode]), self2)
         else if \<not> isinstance_Node endNode then
           (Inl (DtaError ''Initializing Link with non-Node endNode: %s'' [endNode]), self2)
         else
           (Inr (), self2(''_startNode'' \<mapsto> startNode, ''_endNode'' \<mapsto> endNode)))"

text \<open>
  The call \<open>Link(id_, startNode, endNode, label)\<close>: a fresh instance is initialised, and
  the caller receives it only when \<open>__init__\<close> returns.
\<close>

definition Link_new :: "pyval \<Rightarrow> pyval \<Rightarrow> pyval \<Rightarrow> pyval \<Rightarrow> error + obj" where
  "Link_new id' startNode endNode label =
     (case Link_init Map.empty id' startNode endNode label of
        (Inl e, self) \<Rightarrow> Inl e
      | (Inr u, self) \<Rightarrow> Inr self)"

definition getStartNode :: "obj \<Rightarrow> error + pyval" where
  "getStartNode self = getattr self ''_startNode''"

definition getEndNode :: "obj \<Rightarrow> error + pyval" where
  "getEndNode self = getattr self ''_endNode''"

definition getId :: "obj \<Rightarrow> error + pyval" where
  "getId self = getattr self ''_id''"

text \<open>
  A method looked up on the class, as in \<open>Link.getId()\<close>, is a plain function: it takes
  the instance as its first argument, and fails with \<open>TypeError\<close> when the call supplies
  none.
\<close>

fun Link_getId :: "obj list \<Rightarrow> error + pyval" where
  "Link_getId [self] = getId self"
| "Link_getId [] =
     Inl (TypeError ''getId() missing 1 required positional argument: self'')"
| "Link_getId args = Inl (TypeError ''getId() takes 1 positional argument'')"

definition getOtherEnd :: "obj \<Rightarrow> pyval \<Rightarrow> error + pyval" where
  "getOtherEnd self node =
     andThen (getattr self ''_startNode'') (\<lambda>s.
     if py_eq s node then getattr self ''_endNode''
     else
       andThen (getattr self ''_endNode'') (\<lambda>e.
       if py_eq e node then getattr self ''_startNode''
       else
         andThen (Link_getId []) (\<lambda>lid.
         andThen (Node_getId node) (\<lambda>nid.
         Inl (DtaError ''Link %d does not have end node %d'' [lid, nid])))))"

definition getIid :: "obj \<Rightarrow> error + pyval" where
  "getIid self =
     andThen (andThen (getStartNode self) Node_getId) (\<lambda>a.
     andThen (andThen (getEndNode self) Node_getId) (\<lambda>b.
     Inr (PTuple [a, b])))"

definition setLabel :: "obj \<Rightarrow> pyval \<Rightarrow> obj" where
  "setLabel self label = self(''_label'' \<mapsto> label)"

definition getLabel :: "obj \<Rightarrow> error + pyval" where
  "getLabel self = getattr self ''_label''"

text \<open>
  The attribute reads of a tuple display happen left to right; the first missing one raises.
\<close>

fun read_attrs :: "obj \<Rightarrow> string list \<Rightarrow> error + pyval list" where
  "read_attrs link [] = Inr []"
| "read_attrs link (n # ns) =
     andThen (getattr link n) (\<lambda>v.
     andThen (read_attrs link ns) (\<lambda>vs. Inr (v # vs)))"

definition attr_names :: "string list" where
  "attr_names = [''_facilityType'', ''_freeflowSpeed'', ''_effectiveLengthFactor'',
                 ''_responseTimeFactor'', ''_numLanes'', ''_roundAbout'', ''_level'']"

definition getattrs :: "obj \<Rightarrow> error + pyval" where
  "getattrs link = andThen (read_attrs link attr_names) (\<lambda>vs. Inr (PTuple vs))"

definition hasSameAttributes :: "obj \<Rightarrow> obj \<Rightarrow> error + bool" where
  "hasSameAttributes self other =
     andThen (getattrs self) (\<lambda>attr1.
     andThen (getattrs other) (\<lambda>attr2.
     if py_eq attr1 attr2 then Inr True else Inr False))"

definition getStartNodeId :: "obj \<Rightarrow> error + pyval" where
  "getStartNodeId self = andThen (getStartNode self) Node_getId"

definition getEndNodeId :: "obj \<Rightarrow> error + pyval" where
  "getEndNodeId self = andThen (getEndNode self) Node_getId"

section \<open>Evaluation lemmas\<close>

lemma andThen_Inr [simp]: "andThen (Inr v) f = f v"
  by (simp add: andThen_def)

lemma andThen_Inl [simp]: "andThen (Inl e) f = Inl e"
  by (simp add: andThen_def)

lemma getattr_Some [simp]: "self name = Some v \<Longrightarrow> getattr self name = Inr v"
  by (simp add: getattr_def)

lemma getattr_None [simp]: "self name = None \<Longrightarrow> getattr self name = Inl (AttributeError name)"
  by (simp add: getattr_def)

lemma Link_new_Node:
  "Link_new i (PNode a) (PNode b) l =
     Inr [''_id'' \<mapsto> i, ''_label'' \<mapsto> (if truthy l then l else PStr ''''),
          ''_startNode'' \<mapsto> PNode a, ''_endNode'' \<mapsto> PNode b]"
  by (simp add: Link_new_def Link_init_def DEFAULT_LABEL_def)

lemma py_eq_seq_refl: "(\<And>x. x \<in> set xs \<Longrightarrow> py_eq x x) \<Longrightarrow> py_eq_seq xs xs"
  by (induction xs) simp_all

lemma py_eq_refl: "py_eq v v"
  by (induction v) (simp_all add: py_eq_seq_refl)

lemma py_eq_sym_aux:
  "py_eq v w = py_eq w v" and "py_eq_seq xs ys = py_eq_seq ys xs"
  by (induction v w and xs ys rule: py_eq_py_eq_seq.induct) (auto split: option.splits)

lemma read_attrs_present:
  "set ns \<subseteq> dom link \<Longrightarrow> read_attrs link ns = Inr (map (\<lambda>n. the (link n)) ns)"
  by (induction ns) auto

lemma read_attrs_missing:
  "\<exists>n\<in>set ns. link n = None \<Longrightarrow>
   \<exists>n\<in>set ns. link n = None \<and> read_attrs link ns = Inl (AttributeError n)"
proof (induction ns)
  case Nil
  then show ?case by simp
next
  case (Cons m ns)
  show ?case
  proof (cases "link m")
    case None
    then show ?thesis by simp
  next
    case (Some v)
    with Cons.prems have "\<exists>n\<in>set ns. link n = None" by auto
    from Cons.IH [OF this] Some show ?thesis by auto
  qed
qed

lemma read_attrs_frame:
  "k \<notin> set ns \<Longrightarrow> read_attrs (link(k \<mapsto> v)) ns = read_attrs link ns"
  by (induction ns) (auto simp: getattr_def)

lemma py_eq_seq_map:
  "py_eq_seq (map f ns) (map g ns) = list_all (\<lambda>n. py_eq (f n) (g n)) ns"
  by (induction ns) simp_all

lemma getattrs_present:
  "set attr_names \<subseteq> dom link \<Longrightarrow>
   getattrs link = Inr (PTuple (map (\<lambda>n. the (link n)) attr_names))"
  by (simp add: getattrs_def read_attrs_present)

lemma getattrs_missing:
  "\<exists>n\<in>set attr_names. link n = None \<Longrightarrow>
   \<exists>n\<in>set attr_names. link n = None \<and> getattrs link = Inl (AttributeError n)"
  using read_attrs_missing [of attr_names link] by (auto simp: getattrs_def)

lemma getattrs_frame:
  "k \<notin> set attr_names \<Longrightarrow> getattrs (link(k \<mapsto> v)) = getattrs link"
  by (simp add: getattrs_def read_attrs_frame)

lemma hasSameAttributes_present:
  assumes "set attr_names \<subseteq> dom self" and "set attr_names \<subseteq> dom other"
  shows "hasSameAttributes self other =
     Inr (list_all (\<lambda>n. py_eq (the (self n)) (the (other n))) attr_names)"
  using assms by (simp add: hasSameAttributes_def getattrs_present py_eq_seq_map)

section \<open>Construction\<close>

text \<open>
  C1, as the code has it. Constructing a Link whose \<open>startNode\<close> is not a Node raises
  \<open>DtaError\<close> (the spec's InvalidEndpointError) naming the start node; with a Node as
  \<open>startNode\<close> and a non-Node \<open>endNode\<close> it raises the error naming the end node, so the
  start node is checked first and is the one reported when both are invalid. At the raise the
  instance being initialised already carries \<open>_id\<close> and the resolved \<open>_label\<close>, and
  neither endpoint field has been assigned; the constructor call hands no Link to the caller.
\<close>

theorem Link_init_invalid_endpoint:
  "(\<not> isinstance_Node startNode \<longrightarrow>
      Link_init self i startNode endNode label =
        (Inl (DtaError ''Initializing Link with non-Node startNode: %s'' [startNode]),
         self(''_id'' \<mapsto> i, ''_label'' \<mapsto> (if truthy label then label else DEFAULT_LABEL)))
      \<and> snd (Link_init self i startNode endNode label) ''_startNode'' = self ''_startNode''
      \<and> snd (Link_init self i startNode endNode label) ''_endNode'' = self ''_endNode''
      \<and> Link_new i startNode endNode label =
          Inl (DtaError ''Initializing Link with non-Node startNode: %s'' [startNode]))
   \<and> (isinstance_Node startNode \<and> \<not> isinstance_Node endNode \<longrightarrow>
      Link_init self i startNode endNode label =
        (Inl (DtaError ''Initializing Link with non-Node endNode: %s'' [endNode]),
         self(''_id'' \<mapsto> i, ''_label'' \<mapsto> (if truthy label then label else DEFAULT_LABEL)))
      \<and> snd (Link_init self i startNode endNode label) ''_startNode'' = self ''_startNode''
      \<and> snd (Link_init self i startNode endNode label) ''_endNode'' = self ''_endNode''
      \<and> Link_new i startNode endNode label =
          Inl (DtaError ''Initializing Link with non-Node endNode: %s'' [endNode]))"
  by (simp add: Link_init_def Link_new_def)

theorem Link_init_invalid_endpoint_witness:
  "\<not> isinstance_Node (PTuple [PInt 3, PInt 4]) \<and> \<not> isinstance_Node PNone
   \<and> Link_new (PInt 7) (PTuple [PInt 3, PInt 4]) PNone (PStr ''Main St'') =
       Inl (DtaError ''Initializing Link with non-Node startNode: %s'' [PTuple [PInt 3, PInt 4]])
   \<and> snd (Link_init Map.empty (PInt 7) (PTuple [PInt 3, PInt 4]) PNone (PStr ''Main St''))
         ''_startNode'' = None
   \<and> isinstance_Node (PNode \<lparr>oid = 0, node_id = 1, node_x = 0, node_y = 0\<rparr>)
   \<and> Link_new (PInt 7) (PNode \<lparr>oid = 0, node_id = 1, node_x = 0, node_y = 0\<rparr>) PNone (PStr ''Main St'') =
       Inl (DtaError ''Initializing Link with non-Node endNode: %s'' [PNone])"
  using Link_init_invalid_endpoint [of "PTuple [PInt 3, PInt 4]" Map.empty "PInt 7" PNone "PStr ''Main St''"]
    Link_init_invalid_endpoint [of "PNode \<lparr>oid = 0, node_id = 1, node_x = 0, node_y = 0\<rparr>" Map.empty "PInt 7" PNone "PStr ''Main St''"]
  by simp

text \<open>
  C1 as stated does not hold: the error is not raised before any field is set. With a pair of
  numbers as \<open>startNode\<close>, \<open>__init__\<close> raises on an instance whose \<open>_id\<close> and
  \<open>_label\<close> are already stored.
\<close>

theorem Link_init_fields_set_before_raise:
  "fst (Link_init Map.empty (PInt 7) (PTuple [PInt 3, PInt 4])
          (PNode \<lparr>oid = 0, node_id = 1, node_x = 0, node_y = 0\<rparr>) (PStr ''Main St'')) =
     Inl (DtaError ''Initializing Link with non-Node startNode: %s'' [PTuple [PInt 3, PInt 4]])
   \<and> snd (Link_init Map.empty (PInt 7) (PTuple [PInt 3, PInt 4])
          (PNode \<lparr>oid = 0, node_id = 1, node_x = 0, node_y = 0\<rparr>) (PStr ''Main St'')) ''_id'' =
     Some (PInt 7)
   \<and> snd (Link_init Map.empty (PInt 7) (PTuple [PInt 3, PInt 4])
          (PNode \<lparr>oid = 0, node_id = 1, node_x = 0, node_y = 0\<rparr>) (PStr ''Main St'')) ''_label'' =
     Some (PStr ''Main St'')
   \<and> snd (Link_init Map.empty (PInt 7) (PTuple [PInt 3, PInt 4])
          (PNode \<lparr>oid = 0, node_id = 1, node_x = 0, node_y = 0\<rparr>) (PStr ''Main St'')) \<noteq> Map.empty"
  by (simp add: Link_init_def)

section \<open>The opposite endpoint\<close>

text \<open>
  Given the stored start node, \<open>getOtherEnd\<close> returns the end node; given the stored end
  node it returns the start node (the end node itself when the two compare equal, since the
  start node is tested first). For any other argument the \<open>else\<close> branch evaluates
  \<open>Link.getId()\<close> first, and that call fails.
\<close>

lemma getOtherEnd_endpoints:
  assumes "self ''_startNode'' = Some s" and "self ''_endNode'' = Some e"
  shows "getOtherEnd self s = Inr e"
    and "getOtherEnd self e = Inr (if py_eq s e then e else s)"
  using assms by (simp_all add: getOtherEnd_def py_eq_refl)

lemma getOtherEnd_unknown:
  assumes "self ''_startNode'' = Some s" and "self ''_endNode'' = Some e"
    and "\<not> py_eq s node" and "\<not> py_eq e node"
  shows "getOtherEnd self node = Inl (TypeError ''getId() missing 1 required positional argument: self'')"
  using assms by (simp add: getOtherEnd_def)

text \<open>
  C2 at a failing input: on a link from node 1 to node 2, \<open>getOtherEnd\<close> of an unrelated
  third node ends in \<open>TypeError\<close>, raised while the message of the intended \<open>DtaError\<close>
  is being built, and not in the domain error the claim describes.
\<close>

theorem getOtherEnd_unrelated_node_TypeError:
  "andThen (Link_new (PInt 7) (PNode \<lparr>oid = 0, node_id = 1, node_x = 0, node_y = 0\<rparr>)
                     (PNode \<lparr>oid = 1, node_id = 2, node_x = 3, node_y = 4\<rparr>) (PStr ''Main St''))
     (\<lambda>link. getOtherEnd link (PNode \<lparr>oid = 2, node_id = 3, node_x = 5, node_y = 5\<rparr>)) =
   Inl (TypeError ''getId() missing 1 required positional argument: self'')"
  by (simp add: Link_new_Node getOtherEnd_def)

section \<open>Identifiers and label\<close>

text \<open>
  C9. For every link between two nodes, \<open>getIid\<close> returns the pair of the start node's id
  and the end node's id, in this order whatever the two ids are, and its components are what
  \<open>getStartNodeId\<close> and \<open>getEndNodeId\<close> return.
\<close>

theorem getIid_ordered_pair:
  assumes "self ''_startNode'' = Some (PNode a)" and "self ''_endNode'' = Some (PNode b)"
  shows "getIid self = Inr (PTuple [PInt (node_id a), PInt (node_id b)])
     \<and> getStartNodeId self = Inr (PInt (node_id a))
     \<and> getEndNodeId self = Inr (PInt (node_id b))
     \<and> getIid self =
         andThen (getStartNodeId self) (\<lambda>s.
         andThen (getEndNodeId self) (\<lambda>e. Inr (PTuple [s, e])))"
  using assms
  by (simp add: getIid_def getStartNodeId_def getEndNodeId_def getStartNode_def getEndNode_def)

theorem getIid_ordered_pair_witness:
  "[''_id'' \<mapsto> PInt 7, ''_label'' \<mapsto> PStr ''Main St'',
    ''_startNode'' \<mapsto> PNode \<lparr>oid = 0, node_id = 9, node_x = 0, node_y = 0\<rparr>,
    ''_endNode'' \<mapsto> PNode \<lparr>oid = 1, node_id = 2, node_x = 3, node_y = 4\<rparr>] ''_startNode''
     = Some (PNode \<lparr>oid = 0, node_id = 9, node_x = 0, node_y = 0\<rparr>)
   \<and> [''_id'' \<mapsto> PInt 7, ''_label'' \<mapsto> PStr ''Main St'',
    ''_startNode'' \<mapsto> PNode \<lparr>oid = 0, node_id = 9, node_x = 0, node_y = 0\<rparr>,
    ''_endNode'' \<mapsto> PNode \<lparr>oid = 1, node_id = 2, node_x = 3, node_y = 4\<rparr>] ''_endNode''
     = Some (PNode \<lparr>oid = 1, node_id = 2, node_x = 3, node_y = 4\<rparr>)
   \<and> getIid [''_id'' \<mapsto> PInt 7, ''_label'' \<mapsto> PStr ''Main St'',
    ''_startNode'' \<mapsto> PNode \<lparr>oid = 0, node_id = 9, node_x = 0, node_y = 0\<rparr>,
    ''_endNode'' \<mapsto> PNode \<lparr>oid = 1, node_id = 2, node_x = 3, node_y = 4\<rparr>]
     = Inr (PTuple [PInt 9, PInt 2])"
proof -
  let ?a = "\<lparr>oid = 0, node_id = 9, node_x = 0, node_y = 0\<rparr>"
  let ?b = "\<lparr>oid = 1, node_id = 2, node_x = 3, node_y = 4\<rparr>"
  let ?link = "[''_id'' \<mapsto> PInt 7, ''_label'' \<mapsto> PStr ''Main St'',
    ''_startNode'' \<mapsto> PNode ?a, ''_endNode'' \<mapsto> PNode ?b]"
  have s: "?link ''_startNode'' = Some (PNode ?a)" by simp
  have e: "?link ''_endNode'' = Some (PNode ?b)" by simp
  from getIid_ordered_pair [OF s e]
  have "getIid ?link = Inr (PTuple [PInt (node_id ?a), PInt (node_id ?b)])"
    by blast
  also have "\<dots> = Inr (PTuple [PInt 9, PInt 2])" by simp
  finally have "getIid ?link = Inr (PTuple [PInt 9, PInt 2])" .
  with s e show ?thesis by blast
qed

text \<open>
  C10. For every value \<open>label\<close>, the empty string and the other falsy values included,
  \<open>getLabel\<close> after \<open>setLabel(label)\<close> returns exactly \<open>label\<close>: the setter stores its
  argument as it is, while the constructor replaces a falsy label by the default. The setter
  leaves id, start node and end node as they were.
\<close>

theorem setLabel_getLabel:
  "getLabel (setLabel self label) = Inr label
   \<and> getId (setLabel self label) = getId self
   \<and> getStartNode (setLabel self label) = getStartNode self
   \<and> getEndNode (setLabel self label) = getEndNode self
   \<and> andThen (Link_new i (PNode a) (PNode b) label) getLabel =
        Inr (if truthy label then label else DEFAULT_LABEL)
   \<and> andThen (Link_new i (PNode a) (PNode b) l0) (\<lambda>link. getLabel (setLabel link label)) =
        Inr label"
  by (simp add: getLabel_def setLabel_def getId_def getStartNode_def getEndNode_def
      getattr_def Link_new_Node DEFAULT_LABEL_def)

theorem setLabel_getLabel_witness:
  "getLabel (setLabel [''_id'' \<mapsto> PInt 7, ''_label'' \<mapsto> PStr ''Main St''] (PStr '''')) =
     Inr (PStr '''')
   \<and> getLabel (setLabel [''_id'' \<mapsto> PInt 7, ''_label'' \<mapsto> PStr ''Main St''] PNone) = Inr PNone
   \<and> getId (setLabel [''_id'' \<mapsto> PInt 7, ''_label'' \<mapsto> PStr ''Main St''] PNone) = Inr (PInt 7)"
  using setLabel_getLabel [of "[''_id'' \<mapsto> PInt 7, ''_label'' \<mapsto> PStr ''Main St'']" "PStr ''''"]
    setLabel_getLabel [of "[''_id'' \<mapsto> PInt 7, ''_label'' \<mapsto> PStr ''Main St'']" PNone]
  by (simp add: getId_def)

section \<open>Attribute comparison\<close>

text \<open>
  C6. For two objects that both carry the seven extended attributes, \<open>hasSameAttributes\<close>
  is reflexive and symmetric, returns \<open>True\<close> exactly when the seven attributes are equal
  one by one, in the order facility type, free-flow speed, effective length factor, response
  time factor, number of lanes, roundabout flag, level, and returns the same whatever id,
  label, start node and end node either object holds.
\<close>

theorem hasSameAttributes_equivalence:
  assumes "set attr_names \<subseteq> dom self" and "set attr_names \<subseteq> dom other"
  shows "hasSameAttributes self self = Inr True
     \<and> hasSameAttributes self other = hasSameAttributes other self
     \<and> hasSameAttributes self other =
         Inr (py_eq (the (self ''_facilityType'')) (the (other ''_facilityType''))
            \<and> py_eq (the (self ''_freeflowSpeed'')) (the (other ''_freeflowSpeed''))
            \<and> py_eq (the (self ''_effectiveLengthFactor'')) (the (other ''_effectiveLengthFactor''))
            \<and> py_eq (the (self ''_responseTimeFactor'')) (the (other ''_responseTimeFactor''))
            \<and> py_eq (the (self ''_numLanes'')) (the (other ''_numLanes''))
            \<and> py_eq (the (self ''_roundAbout'')) (the (other ''_roundAbout''))
            \<and> py_eq (the (self ''_level'')) (the (other ''_level'')))
     \<and> (\<forall>k\<in>{''_id'', ''_label'', ''_startNode'', ''_endNode''}. \<forall>v.
           hasSameAttributes (self(k \<mapsto> v)) other = hasSameAttributes self other
         \<and> hasSameAttributes self (other(k \<mapsto> v)) = hasSameAttributes self other)"
proof -
  have r: "hasSameAttributes self self = Inr True"
    by (simp add: hasSameAttributes_present [OF assms(1) assms(1)] list_all_iff py_eq_refl)
  have s: "hasSameAttributes self other = hasSameAttributes other self"
    unfolding hasSameAttributes_present [OF assms(1) assms(2)]
      hasSameAttributes_present [OF assms(2) assms(1)]
    by (simp add: py_eq_sym_aux(1) [of "the (self _)"])
  have t: "hasSameAttributes self other =
         Inr (py_eq (the (self ''_facilityType'')) (the (other ''_facilityType''))
            \<and> py_eq (the (self ''_freeflowSpeed'')) (the (other ''_freeflowSpeed''))
            \<and> py_eq (the (self ''_effectiveLengthFactor'')) (the (other ''_effectiveLengthFactor''))
            \<and> py_eq (the (self ''_responseTimeFactor'')) (the (other ''_responseTimeFactor''))
            \<and> py_eq (the (self ''_numLanes'')) (the (other ''_numLanes''))
            \<and> py_eq (the (self ''_roundAbout'')) (the (other ''_roundAbout''))
            \<and> py_eq (the (self ''_level'')) (the (other ''_level'')))"
    unfolding hasSameAttributes_present [OF assms(1) assms(2)]
    by (simp add: attr_names_def)
  have f: "\<forall>k\<in>{''_id'', ''_label'', ''_startNode'', ''_endNode''}. \<forall>v.
           hasSameAttributes (self(k \<mapsto> v)) other = hasSameAttributes self other
         \<and> hasSameAttributes self (other(k \<mapsto> v)) = hasSameAttributes self other"
  proof (intro ballI allI)
    fix k :: string and v
    assume "k \<in> {''_id'', ''_label'', ''_startNode'', ''_endNode''}"
    then have "k \<notin> set attr_names"
      by (auto simp: attr_names_def)
    then show "hasSameAttributes (self(k \<mapsto> v)) other = hasSameAttributes self other
         \<and> hasSameAttributes self (other(k \<mapsto> v)) = hasSameAttributes self other"
      by (simp add: hasSameAttributes_def getattrs_frame)
  qed
  from r s t f show ?thesis by blast
qed

theorem hasSameAttributes_equivalence_witness:
  "set attr_names \<subseteq> dom [''_facilityType'' \<mapsto> PInt 1, ''_freeflowSpeed'' \<mapsto> PFloat 30,
      ''_effectiveLengthFactor'' \<mapsto> PFloat 1, ''_responseTimeFactor'' \<mapsto> PFloat 1,
      ''_numLanes'' \<mapsto> PInt 2, ''_roundAbout'' \<mapsto> PBool False, ''_level'' \<mapsto> PInt 0]
   \<and> set attr_names \<subseteq> dom [''_facilityType'' \<mapsto> PInt 1, ''_freeflowSpeed'' \<mapsto> PFloat 30,
      ''_effectiveLengthFactor'' \<mapsto> PFloat 1, ''_responseTimeFactor'' \<mapsto> PFloat 1,
      ''_numLanes'' \<mapsto> PInt 3, ''_roundAbout'' \<mapsto> PBool False, ''_level'' \<mapsto> PInt 0]
   \<and> hasSameAttributes [''_facilityType'' \<mapsto> PInt 1, ''_freeflowSpeed'' \<mapsto> PFloat 30,
      ''_effectiveLengthFactor'' \<mapsto> PFloat 1, ''_responseTimeFactor'' \<mapsto> PFloat 1,
      ''_numLanes'' \<mapsto> PInt 2, ''_roundAbout'' \<mapsto> PBool False, ''_level'' \<mapsto> PInt 0]
      [''_facilityType'' \<mapsto> PInt 1, ''_freeflowSpeed'' \<mapsto> PFloat 30,
      ''_effectiveLengthFactor'' \<mapsto> PFloat 1, ''_responseTimeFactor'' \<mapsto> PFloat 1,
      ''_numLanes'' \<mapsto> PInt 2, ''_roundAbout'' \<mapsto> PBool False, ''_level'' \<mapsto> PInt 0] = Inr True
   \<and> hasSameAttributes [''_facilityType'' \<mapsto> PInt 1, ''_freeflowSpeed'' \<mapsto> PFloat 30,
      ''_effectiveLengthFactor'' \<mapsto> PFloat 1, ''_responseTimeFactor'' \<mapsto> PFloat 1,
      ''_numLanes'' \<mapsto> PInt 2, ''_roundAbout'' \<mapsto> PBool False, ''_level'' \<mapsto> PInt 0]
      [''_facilityType'' \<mapsto> PInt 1, ''_freeflowSpeed'' \<mapsto> PFloat 30,
      ''_effectiveLengthFactor'' \<mapsto> PFloat 1, ''_responseTimeFactor'' \<mapsto> PFloat 1,
      ''_numLanes'' \<mapsto> PInt 3, ''_roundAbout'' \<mapsto> PBool False, ''_level'' \<mapsto> PInt 0] = Inr False
   \<and> hasSameAttributes [''_facilityType'' \<mapsto> PInt 1, ''_freeflowSpeed'' \<mapsto> PFloat 30,
      ''_effectiveLengthFactor'' \<mapsto> PFloat 1, ''_responseTimeFactor'' \<mapsto> PFloat 1,
      ''_numLanes'' \<mapsto> PInt 3, ''_roundAbout'' \<mapsto> PBool False, ''_level'' \<mapsto> PInt 0]
      [''_facilityType'' \<mapsto> PInt 1, ''_freeflowSpeed'' \<mapsto> PFloat 30,
      ''_effectiveLengthFactor'' \<mapsto> PFloat 1, ''_responseTimeFactor'' \<mapsto> PFloat 1,
      ''_numLanes'' \<mapsto> PInt 2, ''_roundAbout'' \<mapsto> PBool False, ''_level'' \<mapsto> PInt 0] = Inr False"
proof -
  let ?p = "[''_facilityType'' \<mapsto> PInt 1, ''_freeflowSpeed'' \<mapsto> PFloat 30,
      ''_effectiveLengthFactor'' \<mapsto> PFloat 1, ''_responseTimeFactor'' \<mapsto> PFloat 1,
      ''_numLanes'' \<mapsto> PInt 2, ''_roundAbout'' \<mapsto> PBool False, ''_level'' \<mapsto> PInt 0]"
  let ?q = "[''_facilityType'' \<mapsto> PInt 1, ''_freeflowSpeed'' \<mapsto> PFloat 30,
      ''_effectiveLengthFactor'' \<mapsto> PFloat 1, ''_responseTimeFactor'' \<mapsto> PFloat 1,
      ''_numLanes'' \<mapsto> PInt 3, ''_roundAbout'' \<mapsto> PBool False, ''_level'' \<mapsto> PInt 0]"
  have p: "set attr_names \<subseteq> dom ?p" by (simp add: attr_names_def)
  have q: "set attr_names \<subseteq> dom ?q" by (simp add: attr_names_def)
  note inst = hasSameAttributes_equivalence [OF p q]
  from inst have r: "hasSameAttributes ?p ?p = Inr True" by blast
  from inst have s: "hasSameAttributes ?p ?q = hasSameAttributes ?q ?p" by blast
  from inst have "hasSameAttributes ?p ?q =
         Inr (py_eq (the (?p ''_facilityType'')) (the (?q ''_facilityType''))
            \<and> py_eq (the (?p ''_freeflowSpeed'')) (the (?q ''_freeflowSpeed''))
            \<and> py_eq (the (?p ''_effectiveLengthFactor'')) (the (?q ''_effectiveLengthFactor''))
            \<and> py_eq (the (?p ''_responseTimeFactor'')) (the (?q ''_responseTimeFactor''))
            \<and> py_eq (the (?p ''_numLanes'')) (the (?q ''_numLanes''))
            \<and> py_eq (the (?p ''_roundAbout'')) (the (?q ''_roundAbout''))
            \<and> py_eq (the (?p ''_level'')) (the (?q ''_level'')))"
    by blast
  also have "\<dots> = Inr False" by simp
  finally have f: "hasSameAttributes ?p ?q = Inr False" .
  with s have f': "hasSameAttributes ?q ?p = Inr False" by simp
  from p q r f f' show ?thesis by blast
qed

text \<open>
  C7. When one of the seven extended attributes is missing from either object,
  \<open>hasSameAttributes\<close> fails with an \<open>AttributeError\<close> for a missing attribute and
  returns no boolean. A base Link, whose constructor sets none of the seven, fails at the
  first, \<open>_facilityType\<close>, both as the receiver and as the argument.
\<close>

theorem hasSameAttributes_missing:
  "((\<exists>n\<in>set attr_names. self n = None \<or> other n = None) \<longrightarrow>
      (\<exists>n\<in>set attr_names. (self n = None \<or> other n = None)
          \<and> hasSameAttributes self other = Inl (AttributeError n)))
   \<and> andThen (Link_new i (PNode a) (PNode b) label) (\<lambda>base. hasSameAttributes base other) =
        Inl (AttributeError ''_facilityType'')
   \<and> (set attr_names \<subseteq> dom self \<longrightarrow>
        andThen (Link_new i (PNode a) (PNode b) label) (\<lambda>base. hasSameAttributes self base) =
          Inl (AttributeError ''_facilityType''))"
proof -
  have m: "(\<exists>n\<in>set attr_names. self n = None \<or> other n = None) \<longrightarrow>
      (\<exists>n\<in>set attr_names. (self n = None \<or> other n = None)
          \<and> hasSameAttributes self other = Inl (AttributeError n))"
  proof
    assume ex: "\<exists>n\<in>set attr_names. self n = None \<or> other n = None"
    show "\<exists>n\<in>set attr_names. (self n = None \<or> other n = None)
          \<and> hasSameAttributes self other = Inl (AttributeError n)"
    proof (cases "\<exists>n\<in>set attr_names. self n = None")
      case True
      from getattrs_missing [OF True] show ?thesis
        by (auto simp: hasSameAttributes_def)
    next
      case False
      then have p: "set attr_names \<subseteq> dom self" by auto
      from False ex have "\<exists>n\<in>set attr_names. other n = None" by blast
      from getattrs_missing [OF this] show ?thesis
        by (auto simp: hasSameAttributes_def getattrs_present [OF p])
    qed
  qed
  have b1: "andThen (Link_new i (PNode a) (PNode b) label) (\<lambda>base. hasSameAttributes base other) =
        Inl (AttributeError ''_facilityType'')"
    by (simp add: Link_new_Node hasSameAttributes_def getattrs_def attr_names_def)
  have b2: "set attr_names \<subseteq> dom self \<longrightarrow>
        andThen (Link_new i (PNode a) (PNode b) label) (\<lambda>base. hasSameAttributes self base) =
          Inl (AttributeError ''_facilityType'')"
  proof
    assume p: "set attr_names \<subseteq> dom self"
    have "getattrs [''_id'' \<mapsto> i, ''_label'' \<mapsto> (if truthy label then label else PStr ''''),
          ''_startNode'' \<mapsto> PNode a, ''_endNode'' \<mapsto> PNode b] = Inl (AttributeError ''_facilityType'')"
      by (simp add: getattrs_def attr_names_def)
    then show "andThen (Link_new i (PNode a) (PNode b) label) (\<lambda>base. hasSameAttributes self base) =
          Inl (AttributeError ''_facilityType'')"
      by (simp add: Link_new_Node hasSameAttributes_def getattrs_present [OF p])
  qed
  from m b1 b2 show ?thesis by blast
qed

theorem hasSameAttributes_missing_witness:
  "(\<exists>n\<in>set attr_names. [''_facilityType'' \<mapsto> PInt 1, ''_freeflowSpeed'' \<mapsto> PFloat 30] n = None
        \<or> [''_facilityType'' \<mapsto> PInt 1, ''_freeflowSpeed'' \<mapsto> PFloat 30,
      ''_effectiveLengthFactor'' \<mapsto> PFloat 1, ''_responseTimeFactor'' \<mapsto> PFloat 1,
      ''_numLanes'' \<mapsto> PInt 2, ''_roundAbout'' \<mapsto> PBool False, ''_level'' \<mapsto> PInt 0] n = None)
   \<and> hasSameAttributes [''_facilityType'' \<mapsto> PInt 1, ''_freeflowSpeed'' \<mapsto> PFloat 30]
      [''_facilityType'' \<mapsto> PInt 1, ''_freeflowSpeed'' \<mapsto> PFloat 30,
      ''_effectiveLengthFactor'' \<mapsto> PFloat 1, ''_responseTimeFactor'' \<mapsto> PFloat 1,
      ''_numLanes'' \<mapsto> PInt 2, ''_roundAbout'' \<mapsto> PBool False, ''_level'' \<mapsto> PInt 0] = Inl (AttributeError ''_effectiveLengthFactor'')
   \<and> set attr_names \<subseteq> dom [''_facilityType'' \<mapsto> PInt 1, ''_freeflowSpeed'' \<mapsto> PFloat 30,
      ''_effectiveLengthFactor'' \<mapsto> PFloat 1, ''_responseTimeFactor'' \<mapsto> PFloat 1,
      ''_numLanes'' \<mapsto> PInt 2, ''_roundAbout'' \<mapsto> PBool False, ''_level'' \<mapsto> PInt 0]
   \<and> andThen (Link_new (PInt 7) (PNode \<lparr>oid = 0, node_id = 1, node_x = 0, node_y = 0\<rparr>)
        (PNode \<lparr>oid = 1, node_id = 2, node_x = 3, node_y = 4\<rparr>) (PStr ''Main St''))
       (\<lambda>base. hasSameAttributes [''_facilityType'' \<mapsto> PInt 1, ''_freeflowSpeed'' \<mapsto> PFloat 30,
      ''_effectiveLengthFactor'' \<mapsto> PFloat 1, ''_responseTimeFactor'' \<mapsto> PFloat 1,
      ''_numLanes'' \<mapsto> PInt 2, ''_roundAbout'' \<mapsto> PBool False, ''_level'' \<mapsto> PInt 0] base) =
      Inl (AttributeError ''_facilityType'')"
proof -
  let ?p = "[''_facilityType'' \<mapsto> PInt 1, ''_freeflowSpeed'' \<mapsto> PFloat 30]"
  let ?q = "[''_facilityType'' \<mapsto> PInt 1, ''_freeflowSpeed'' \<mapsto> PFloat 30,
      ''_effectiveLengthFactor'' \<mapsto> PFloat 1, ''_responseTimeFactor'' \<mapsto> PFloat 1,
      ''_numLanes'' \<mapsto> PInt 2, ''_roundAbout'' \<mapsto> PBool False, ''_level'' \<mapsto> PInt 0]"
  have ex: "\<exists>n\<in>set attr_names. ?p n = None \<or> ?q n = None"
    by (simp add: attr_names_def)
  have q: "set attr_names \<subseteq> dom ?q" by (simp add: attr_names_def)
  note inst = hasSameAttributes_missing [of ?p ?q "PInt 7" "\<lparr>oid = 0, node_id = 1, node_x = 0, node_y = 0\<rparr>" "\<lparr>oid = 1, node_id = 2, node_x = 3, node_y = 4\<rparr>" "PStr ''Main St''"]
  from inst ex have "\<exists>n\<in>set attr_names. (?p n = None \<or> ?q n = None)
      \<and> hasSameAttributes ?p ?q = Inl (AttributeError n)"
    by blast
  then obtain n where n: "n \<in> set attr_names" "?p n = None \<or> ?q n = None"
      "hasSameAttributes ?p ?q = Inl (AttributeError n)"
    by blast
  have "hasSameAttributes ?p ?q = Inl (AttributeError ''_effectiveLengthFactor'')"
    by (simp add: hasSameAttributes_def getattrs_def attr_names_def)
  moreover
  from hasSameAttributes_missing [of ?q ?q "PInt 7" "\<lparr>oid = 0, node_id = 1, node_x = 0, node_y = 0\<rparr>" "\<lparr>oid = 1, node_id = 2, node_x = 3, node_y = 4\<rparr>" "PStr ''Main St''"] q
  have "andThen (Link_new (PInt 7) (PNode \<lparr>oid = 0, node_id = 1, node_x = 0, node_y = 0\<rparr>)
        (PNode \<lparr>oid = 1, node_id = 2, node_x = 3, node_y = 4\<rparr>) (PStr ''Main St''))
       (\<lambda>base. hasSameAttributes ?q base) = Inl (AttributeError ''_facilityType'')"
    by blast
  ultimately show ?thesis using ex q by blast
qed

end
